theory Spec2Isabelle
  imports Main
begin

section \<open>Shell Whiz: the command-line front end (shell\_whiz/cli.py)\<close>

text \<open>
  The front end translates a request into a shell command, shows it with a danger
  warning and an explanation, and lets the user run, revise or edit it. Everything it
  does is an effect on a collaborator: the language-model backend, the terminal, the
  user, the configuration store and the host shell. The model below makes each effect
  an event of a trace, each collaborator a parameter, and each exception a value.
\<close>

subsection \<open>Exceptions\<close>

text \<open>
  The exception classes of the \<open>openai\<close> library that \<open>run\<close> names in its handlers.
  They are siblings below \<open>OpenAIError\<close>; the constructor \<open>OpenAIError\<close> stands for an
  instance of the base class or of a subclass that has no handler of its own.
\<close>

datatype openai_error =
    APIError
  | Timeout
  | APIConnectionError
  | InvalidRequestError
  | AuthenticationError
  | PermissionError
  | RateLimitError
  | ServiceUnavailableError
  | OpenAIError

text \<open>
  What a collaborator can raise into the front end; \<open>MarkupError\<close> is the
  exception of \<open>rich\<close> for console markup that it cannot parse.
\<close>

datatype error =
    ShellWhizTranslationError
  | ShellWhizWarningError
  | ShellWhizEditError
  | OpenAI openai_error
  | KeyboardInterrupt
  | MarkupError

text \<open>
  What travels up the call stack of the front end: an exception of a collaborator,
  the \<open>SystemExit\<close> of \<open>sys.exit\<close> (with its argument, \<open>None\<close> for \<open>sys.exit()\<close>),
  or the \<open>UnboundLocalError\<close> of reading a local variable that was never assigned
  (with the variable's name).
\<close>

datatype exn =
    Raised error
  | SystemExit "int option"
  | UnboundLocalError string

subsection \<open>Collaborators\<close>

text \<open>
  The names imported from \<open>shell_whiz.constants\<close>. Their values are not part of
  cli.py, so they are parameters of the model.
\<close>

record constants =
  INV_CLI_ARGS_EXIT_CODE :: int
  OPENAI_ERROR_EXIT_CODE :: int
  SW_ERROR :: string
  SW_ERROR_EXIT_CODE :: int
  SW_WAIT_MSG :: string
  SW_WAIT_MSG_COLOR :: string

text \<open>
  The four operations imported from \<open>shell_whiz.openai\<close>. Each takes the number of
  the loop iteration that calls it before its arguments (the translator is called
  once, before the loop), so that a backend may answer the same question differently
  each time it is asked. \<open>Inl\<close> is the exception raised, \<open>Inr\<close> the value returned.
\<close>

record backend =
  translate_nl_to_shell_command :: "string \<Rightarrow> error + string"
  edit_shell_command :: "nat \<Rightarrow> string \<Rightarrow> string \<Rightarrow> error + string"
  recognize_dangerous_command :: "nat \<Rightarrow> string \<Rightarrow> error + bool \<times> string"
  get_explanation_of_shell_command :: "nat \<Rightarrow> string \<Rightarrow> error + string"

text \<open>
  One answer of the user to the menu of line 100: the entry chosen, together with the
  text typed into the \<open>inquirer.text\<close> prompt that follows for two of the entries.
\<close>

datatype user_action =
    Run_this_command
  | Revise_query string
  | Edit_manually string
  | Exit_choice

text \<open>The parsed command line: the fields of \<open>args\<close> that cli.py reads.\<close>

record args =
  sw_command :: string
  prompt :: "string list"

text \<open>
  The terminal: \<open>rich.print\<close> applied to the text of the warning (line 89), the
  one text given to \<open>rich.print\<close> that contains an answer of the backend. It
  prints the text and returns (\<open>None\<close>), or raises (\<open>Some e\<close>) and prints nothing.
  The other texts given to \<open>rich.print\<close> are fixed texts of the program.
\<close>

record terminal =
  rich_print :: "string \<Rightarrow> error option"

subsection \<open>Events\<close>

text \<open>
  A call of a backend operation is recorded with its arguments and with what came
  back. The explanation is requested by creating a task (line 77) and its result or
  exception arrives where the task is awaited (line 94).
\<close>

datatype event =
    Shell_whiz_config
  | Shell_whiz_update_config
  | Call_translate string "error + string"
  | Call_edit string string "error + string"
  | Create_explanation_task string
  | Call_recognize string "error + bool \<times> string"
  | Wait_spinner string string
  | Await_explanation "error + string"
  | Print_error string
  | Print_command string
  | Print_warning string
  | Print_explanation string
  | Print_plain string
  | Ask_action
  | Ask_revise
  | Ask_edit string
  | Subprocess_run string

text \<open>
  How a call of the front end ends: it returns, it raises, or it waits for an answer
  of the user that never comes (the script of answers is exhausted).
\<close>

datatype outcome = Returns | Raises exn | Awaits_user

subsection \<open>The interaction loop (lines 54 to 128)\<close>

text \<open>Lines 65 to 73: the revision of the command at the head of an iteration.\<close>

definition revise ::
  "backend \<Rightarrow> nat \<Rightarrow> bool \<Rightarrow> string \<Rightarrow> string \<Rightarrow> event list \<times> (exn + string)" where
  "revise b n first_run edit_prompt shell_command =
     (if first_run then ([], Inr shell_command)
      else if edit_prompt \<noteq> [] then
        (let r = edit_shell_command b n shell_command edit_prompt in
         case r of
           Inr c \<Rightarrow> ([Call_edit shell_command edit_prompt r], Inr c)
         | Inl ShellWhizEditError \<Rightarrow> ([Call_edit shell_command edit_prompt r], Inr shell_command)
         | Inl e \<Rightarrow> ([Call_edit shell_command edit_prompt r], Inl (Raised e)))
      else ([], Inr shell_command))"

text \<open>
  Lines 81 to 86: the danger check. It returns the value of \<open>is_dangerous\<close> and the
  value of the local variable \<open>dangerous_consequences\<close>, which is \<open>None\<close> as long as
  no assignment to it has happened; the variable keeps its value from one iteration
  to the next.
\<close>

definition classify ::
  "backend \<Rightarrow> nat \<Rightarrow> string \<Rightarrow> string option \<Rightarrow> event list \<times> (exn + bool \<times> string option)" where
  "classify b n shell_command dangerous_consequences =
     (let r = recognize_dangerous_command b n shell_command in
      case r of
        Inr (d, c) \<Rightarrow> ([Call_recognize shell_command r], Inr (d, Some c))
      | Inl ShellWhizWarningError \<Rightarrow>
          ([Call_recognize shell_command r], Inr (False, dangerous_consequences))
      | Inl e \<Rightarrow> ([Call_recognize shell_command r], Inl (Raised e)))"

text \<open>Line 90: the text of the warning.\<close>

definition warning_text :: "string \<Rightarrow> string" where
  "warning_text c = '' [bold red]Warning[/]: [bold yellow]'' @ c @ ''[/]\<newline>''"

text \<open>Lines 88 to 91: the warning reads \<open>dangerous_consequences\<close>.\<close>

definition warn :: "terminal \<Rightarrow> bool \<Rightarrow> string option \<Rightarrow> event list \<times> (exn + unit)" where
  "warn tm is_dangerous dangerous_consequences =
     (if is_dangerous then
        (case dangerous_consequences of
           None \<Rightarrow> ([], Inl (UnboundLocalError ''dangerous_consequences''))
         | Some c \<Rightarrow>
             (case rich_print tm (warning_text c) of
                None \<Rightarrow> ([Print_warning (warning_text c)], Inr ())
              | Some e \<Rightarrow> ([], Inl (Raised e))))
      else ([], Inr ()))"

text \<open>Lines 93 to 96: the explanation is awaited under the spinner and printed.\<close>

definition explain :: "constants \<Rightarrow> backend \<Rightarrow> nat \<Rightarrow> string \<Rightarrow> event list \<times> (exn + unit)" where
  "explain k b n shell_command =
     (let r = get_explanation_of_shell_command b n shell_command in
      case r of
        Inr explanation \<Rightarrow>
          ([Wait_spinner (SW_WAIT_MSG k) (SW_WAIT_MSG_COLOR k), Await_explanation r,
            Print_explanation explanation], Inr ())
      | Inl e \<Rightarrow>
          ([Wait_spinner (SW_WAIT_MSG k) (SW_WAIT_MSG_COLOR k), Await_explanation r],
           Inl (Raised e)))"

text \<open>
  Lines 65 to 96: one iteration up to the menu. It returns the current command and
  the value of \<open>dangerous_consequences\<close>.
\<close>

definition iteration ::
  "constants \<Rightarrow> terminal \<Rightarrow> backend \<Rightarrow> nat \<Rightarrow> bool \<Rightarrow> string \<Rightarrow> string \<Rightarrow> string option
     \<Rightarrow> event list \<times> (exn + string \<times> string option)" where
  "iteration k tm b n first_run edit_prompt shell_command dangerous_consequences =
     (case revise b n first_run edit_prompt shell_command of
        (ev1, Inl x) \<Rightarrow> (ev1, Inl x)
      | (ev1, Inr cmd) \<Rightarrow>
          (let ev2 = ev1 @ [Print_command cmd, Create_explanation_task cmd] in
           case classify b n cmd dangerous_consequences of
             (ev3, Inl x) \<Rightarrow> (ev2 @ ev3, Inl x)
           | (ev3, Inr (is_dangerous, dc)) \<Rightarrow>
               (case warn tm is_dangerous dc of
                  (ev4, Inl x) \<Rightarrow> (ev2 @ ev3 @ ev4, Inl x)
                | (ev4, Inr _) \<Rightarrow>
                    (case explain k b n cmd of
                       (ev5, Inl x) \<Rightarrow> (ev2 @ ev3 @ ev4 @ ev5, Inl x)
                     | (ev5, Inr _) \<Rightarrow> (ev2 @ ev3 @ ev4 @ ev5, Inr (cmd, dc))))))"

text \<open>
  Lines 64 to 128: the loop, one answer of the user per iteration. The first
  iteration is entered with \<open>first_run\<close> true and the edit prompt empty.
\<close>

fun loop ::
  "constants \<Rightarrow> terminal \<Rightarrow> backend \<Rightarrow> nat \<Rightarrow> bool \<Rightarrow> string \<Rightarrow> string \<Rightarrow> string option
     \<Rightarrow> user_action list \<Rightarrow> event list \<times> outcome" where
  "loop k tm b n first_run edit_prompt shell_command dc [] =
     (case iteration k tm b n first_run edit_prompt shell_command dc of
        (ev, Inl x) \<Rightarrow> (ev, Raises x)
      | (ev, Inr _) \<Rightarrow> (ev @ [Ask_action], Awaits_user))"
| "loop k tm b n first_run edit_prompt shell_command dc (u # us) =
     (case iteration k tm b n first_run edit_prompt shell_command dc of
        (ev, Inl x) \<Rightarrow> (ev, Raises x)
      | (ev, Inr (cmd, dc')) \<Rightarrow>
          (case u of
             Exit_choice \<Rightarrow> (ev @ [Ask_action], Raises (SystemExit None))
           | Revise_query t \<Rightarrow>
               (let (ev', out) = loop k tm b (Suc n) False t cmd dc' us
                in (ev @ [Ask_action, Ask_revise] @ ev', out))
           | Edit_manually t \<Rightarrow>
               (let (ev', out) = loop k tm b (Suc n) False [] t dc' us
                in (ev @ [Ask_action, Ask_edit cmd] @ ev', out))
           | Run_this_command \<Rightarrow> (ev @ [Ask_action, Subprocess_run cmd], Returns)))"

text \<open>Lines 54 to 62 and the entry into the loop.\<close>

definition shell_whiz_ask ::
  "constants \<Rightarrow> terminal \<Rightarrow> backend \<Rightarrow> string \<Rightarrow> user_action list \<Rightarrow> event list \<times> outcome" where
  "shell_whiz_ask k tm b p us =
     (let r = translate_nl_to_shell_command b p in
      case r of
        Inr shell_command \<Rightarrow>
          (let (ev, out) = loop k tm b 0 True [] shell_command None us
           in (Call_translate p r # ev, out))
      | Inl ShellWhizTranslationError \<Rightarrow>
          ([Call_translate p r,
            Print_error (SW_ERROR k @ '': Shell Whiz doesn't know how to do this.'')],
           Raises (SystemExit (Some (SW_ERROR_EXIT_CODE k))))
      | Inl e \<Rightarrow> ([Call_translate p r], Raises (Raised e)))"

subsection \<open>The entry points (lines 131 to 201)\<close>

text \<open>
  Python's \<open>str.isspace\<close> on the code points below 256, \<open>sep.join\<close> and
  \<open>str.strip\<close> without argument.
\<close>

definition isspace :: "char \<Rightarrow> bool" where
  "isspace c =
     (let n = (of_char c :: nat)
      in (9 \<le> n \<and> n \<le> 13) \<or> (28 \<le> n \<and> n \<le> 32) \<or> n = 133 \<or> n = 160)"

fun join :: "string \<Rightarrow> string list \<Rightarrow> string" where
  "join sep [] = []"
| "join sep [w] = w"
| "join sep (w # ws) = w @ sep @ join sep ws"

definition strip :: "string \<Rightarrow> string" where
  "strip s = rev (dropWhile isspace (rev (dropWhile isspace s)))"

text \<open>
  The two operations imported from \<open>shell_whiz.config\<close>: \<open>None\<close> when the call
  returns, \<open>Some e\<close> when it raises \<open>e\<close>.
\<close>

record config_store =
  shell_whiz_config :: "error option"
  shell_whiz_update_config :: "error option"

text \<open>Lines 131 to 139.\<close>

definition run_ai_assistant ::
  "constants \<Rightarrow> terminal \<Rightarrow> backend \<Rightarrow> config_store \<Rightarrow> args \<Rightarrow> user_action list
     \<Rightarrow> event list \<times> outcome" where
  "run_ai_assistant k tm b cs a us =
     (case shell_whiz_config cs of
        Some e \<Rightarrow> ([Shell_whiz_config], Raises (Raised e))
      | None \<Rightarrow>
          (if sw_command a = ''ask'' then
             (let shell_command = strip (join '' '' (prompt a)) in
              if shell_command = [] then
                ([Shell_whiz_config,
                  Print_error (SW_ERROR k @ '': Please provide a valid prompt.'')],
                 Raises (SystemExit (Some (INV_CLI_ARGS_EXIT_CODE k))))
              else
                (let (ev, out) = shell_whiz_ask k tm b shell_command us
                 in (Shell_whiz_config # ev, out)))
           else ([Shell_whiz_config], Returns)))"

text \<open>Lines 142 to 148; \<open>a\<close> is what the argument parser returned.\<close>

definition main ::
  "constants \<Rightarrow> terminal \<Rightarrow> backend \<Rightarrow> config_store \<Rightarrow> args \<Rightarrow> user_action list
     \<Rightarrow> event list \<times> outcome" where
  "main k tm b cs a us =
     (if sw_command a = ''config'' then
        (case shell_whiz_update_config cs of
           Some e \<Rightarrow> ([Shell_whiz_update_config], Raises (Raised e))
         | None \<Rightarrow> ([Shell_whiz_update_config], Returns))
      else if sw_command a = ''ask'' then run_ai_assistant k tm b cs a us
      else ([], Returns))"

text \<open>
  How the process ends: with an exit status, by \<open>run\<close> returning to its caller, with
  an exception that no handler of \<open>run\<close> catches, or never (waiting for the user).
\<close>

datatype ending = Exited int | Run_returns | Uncaught exn | Waits_for_user

text \<open>
  Lines 152 to 201: the handlers of \<open>run\<close>, in their order. \<open>SystemExit\<close> passes all
  of them and ends the process with its argument as status (0 for \<open>None\<close>).
\<close>

definition handle :: "constants \<Rightarrow> outcome \<Rightarrow> event list \<times> ending" where
  "handle k out =
     (case out of
          Returns \<Rightarrow>
          ([], Run_returns)
        | Awaits_user \<Rightarrow>
          ([], Waits_for_user)
        | Raises (Raised (OpenAI APIError)) \<Rightarrow>
          ([Print_error (SW_ERROR k @ '': An error occurred while connecting to the OpenAI API. Please retry your request after a brief wait. The problem is on the side of the OpenAI. Visit https://status.openai.com for more information.'')], Exited (OPENAI_ERROR_EXIT_CODE k))
        | Raises (Raised (OpenAI Timeout)) \<Rightarrow>
          ([Print_error (SW_ERROR k @ '': OpenAI API request timed out. Please retry your request after a brief wait.'')], Exited (OPENAI_ERROR_EXIT_CODE k))
        | Raises (Raised (OpenAI APIConnectionError)) \<Rightarrow>
          ([Print_error (SW_ERROR k @ '': OpenAI API request failed to connect. Please check your internet connection and try again.'')], Exited (OPENAI_ERROR_EXIT_CODE k))
        | Raises (Raised (OpenAI InvalidRequestError)) \<Rightarrow>
          ([Print_error (SW_ERROR k @ '': Your request was malformed or missing some required parameters, such as a token or an input.'')], Exited (OPENAI_ERROR_EXIT_CODE k))
        | Raises (Raised (OpenAI AuthenticationError)) \<Rightarrow>
          ([Print_error (SW_ERROR k @ '': You are not authorized to access the OpenAI API. You may have entered the wrong API key. Your API key is invalid, expired or revoked. Please run [bold green]sw config[/] to set up the API key. Visit https://platform.openai.com/account/api-keys to get your API key.'')], Exited (OPENAI_ERROR_EXIT_CODE k))
        | Raises (Raised (OpenAI PermissionError)) \<Rightarrow>
          ([Print_error (SW_ERROR k @ '': Your API key or token does not have the required scope or role to perform the requested action. Make sure your API key has the appropriate permissions for the action or model accessed.'')], Exited (OPENAI_ERROR_EXIT_CODE k))
        | Raises (Raised (OpenAI RateLimitError)) \<Rightarrow>
          ([Print_error (SW_ERROR k @ '': OpenAI API request exceeded rate limit. If you are on a free plan, please upgrade to a paid plan for a better experience with Shell Whiz. Visit https://platform.openai.com/account/billing/limits for more information.'')], Exited (OPENAI_ERROR_EXIT_CODE k))
        | Raises (Raised (OpenAI ServiceUnavailableError)) \<Rightarrow>
          ([Print_error (SW_ERROR k @ '': OpenAI API request failed due to a temporary server-side issue. Please retry your request after a brief wait. The problem is on the side of the OpenAI. Visit https://status.openai.com for more information.'')], Exited (OPENAI_ERROR_EXIT_CODE k))
        | Raises (Raised (OpenAI OpenAIError)) \<Rightarrow>
          ([Print_error (SW_ERROR k @ '': An unknown error occurred while connecting to the OpenAI API. Please retry your request after a brief wait.'')], Exited (OPENAI_ERROR_EXIT_CODE k))
        | Raises (Raised KeyboardInterrupt) \<Rightarrow>
          ([Print_plain ''\<newline>Exiting...''], Exited 0)
        | Raises (Raised e) \<Rightarrow>
          ([], Uncaught (Raised e))
        | Raises (SystemExit None) \<Rightarrow>
          ([], Exited 0)
        | Raises (SystemExit (Some c)) \<Rightarrow>
          ([], Exited c)
        | Raises (UnboundLocalError v) \<Rightarrow>
          ([], Uncaught (UnboundLocalError v)))"

text \<open>Lines 151 to 153: \<open>run\<close> is \<open>main\<close> under the handlers.\<close>

definition run ::
  "constants \<Rightarrow> terminal \<Rightarrow> backend \<Rightarrow> config_store \<Rightarrow> args \<Rightarrow> user_action list
     \<Rightarrow> event list \<times> ending" where
  "run k tm b cs a us =
     (let (ev, out) = main k tm b cs a us; (ev', fin) = handle k out
      in (ev @ ev', fin))"

subsection \<open>The order of the output\<close>

text \<open>
  What an observer of the terminal has seen of the current iteration: nothing yet,
  the command, the command and the verdict of the danger check (with the consequences
  when the verdict is dangerous), the warning, or the explanation.
\<close>

datatype phase = Idle | Shown | Assessed "string option" | Warned | Explained

text \<open>The consequences of a dangerous verdict; a failed check is not dangerous.\<close>

definition verdict :: "error + bool \<times> string \<Rightarrow> string option" where
  "verdict r = (case r of Inr (d, c) \<Rightarrow> (if d then Some c else None) | Inl _ \<Rightarrow> None)"

text \<open>
  One event moves the observer on, or breaks the order (\<open>None\<close>): the command comes
  first, the warning comes after a dangerous verdict and only then, with the
  consequences of that verdict, the explanation comes after the warning, or after a
  verdict that is not dangerous, and the menu comes after the explanation. The other
  events show nothing of the iteration.
\<close>

fun step :: "phase \<Rightarrow> event \<Rightarrow> phase option" where
  "step ph (Print_command c) = (case ph of Idle \<Rightarrow> Some Shown | _ \<Rightarrow> None)"
| "step ph (Call_recognize c r) = (case ph of Shown \<Rightarrow> Some (Assessed (verdict r)) | _ \<Rightarrow> None)"
| "step ph (Print_warning w) =
     (case ph of
        Assessed (Some c) \<Rightarrow> (if w = warning_text c then Some Warned else None)
      | _ \<Rightarrow> None)"
| "step ph (Print_explanation e) =
     (case ph of Assessed None \<Rightarrow> Some Explained | Warned \<Rightarrow> Some Explained | _ \<Rightarrow> None)"
| "step ph Ask_action = (case ph of Explained \<Rightarrow> Some Idle | _ \<Rightarrow> None)"
| "step ph _ = Some ph"

fun follow :: "phase \<Rightarrow> event list \<Rightarrow> phase option" where
  "follow ph [] = Some ph"
| "follow ph (e # es) = (case step ph e of None \<Rightarrow> None | Some ph' \<Rightarrow> follow ph' es)"

definition output_order_ok :: "event list \<Rightarrow> bool" where
  "output_order_ok es = (case follow Idle es of None \<Rightarrow> False | Some _ \<Rightarrow> True)"

subsection \<open>Backend requests in flight\<close>

text \<open>
  The coroutine of \<open>shell_whiz_ask\<close> and the explanation task share one thread
  under the event loop of \<open>asyncio\<close>: a task created with \<open>create_task\<close> is only
  scheduled, and it starts to run, and so to send its request, when the coroutine
  that created it is suspended at an \<open>await\<close>. The translator (line 59) and the
  danger check (line 82) are called without \<open>await\<close>, so nothing else runs until
  they have returned; the editor (line 69) and the explanation task (line 94) are
  awaited. The scheduler state is the number of tasks created and not yet started and
  the number of tasks that have started and are not yet awaited.
\<close>

fun sched :: "nat \<times> nat \<Rightarrow> event \<Rightarrow> nat \<times> nat" where
  "sched (pending, running) (Create_explanation_task c) = (Suc pending, running)"
| "sched (pending, running) (Call_edit c t r) = (0, running + pending)"
| "sched (pending, running) (Await_explanation r) = (0, running + pending - 1)"
| "sched (pending, running) _ = (pending, running)"

text \<open>
  The number of backend requests that are outstanding while the request of an event
  is: the request of a call without \<open>await\<close> beside those of the started tasks,
  the request of an awaited call beside those of all tasks, which start at the
  suspension.
\<close>

fun in_flight :: "nat \<times> nat \<Rightarrow> event \<Rightarrow> nat list" where
  "in_flight (pending, running) (Call_translate p r) = [Suc running]"
| "in_flight (pending, running) (Call_recognize c r) = [Suc running]"
| "in_flight (pending, running) (Call_edit c t r) = [Suc (running + pending)]"
| "in_flight (pending, running) (Await_explanation r) = [running + pending]"
| "in_flight (pending, running) _ = []"

fun flights :: "nat \<times> nat \<Rightarrow> event list \<Rightarrow> nat list" where
  "flights s [] = []"
| "flights s (e # es) = in_flight s e @ flights (sched s e) es"

text \<open>Two requests overlap when two or more are outstanding at some call.\<close>

definition requests_overlap :: "event list \<Rightarrow> bool" where
  "requests_overlap es = list_ex (\<lambda>n. 2 \<le> n) (flights (0, 0) es)"

subsection \<open>What the sources leave open\<close>

text \<open>
  Modelled from the spec: the values of the exit codes (shell\_whiz/constants.py) are
  missing. Section 6 of the specification calls them distinct and stable, success
  being 0 and each of the three others a dedicated non-zero code.
\<close>

definition exit_codes_ok :: "constants \<Rightarrow> bool" where
  "exit_codes_ok k =
     distinct [0, INV_CLI_ARGS_EXIT_CODE k, SW_ERROR_EXIT_CODE k, OPENAI_ERROR_EXIT_CODE k]"

text \<open>
  Modelled from the spec: the body of \<open>translate_nl_to_shell_command\<close>
  (shell\_whiz/openai.py) is missing. Section 2 of the specification: the Command
  Translator sends the user's natural-language prompt to the language model and
  returns a single shell command string; it fails with a distinct error when no
  command can be produced. The language model is the parameter \<open>model\<close>; its answer
  is the command it produced, empty when it produced none, and its exceptions pass.
\<close>

definition command_translator :: "(string \<Rightarrow> error + string) \<Rightarrow> string \<Rightarrow> error + string" where
  "command_translator model p =
     (case model p of
        Inl e \<Rightarrow> Inl e
      | Inr c \<Rightarrow> (if c = [] then Inl ShellWhizTranslationError else Inr c))"

subsection \<open>Sample collaborators\<close>

text \<open>
  Sample values for the parameters, after the scenarios of section 8 of the
  specification: a backend that knows two requests and one revision and judges one
  command dangerous, a backend that cannot be reached, a backend whose translator is
  the modelled one, a terminal that prints every text, and a configuration store
  that answers.
\<close>

definition sample_constants :: constants where
  "sample_constants =
     \<lparr>INV_CLI_ARGS_EXIT_CODE = 2, OPENAI_ERROR_EXIT_CODE = 3, SW_ERROR = ''[bold red]Error[/]'',
      SW_ERROR_EXIT_CODE = 1, SW_WAIT_MSG = ''Wait, Shell Whiz is thinking... '',
      SW_WAIT_MSG_COLOR = ''green''\<rparr>"

definition scenario_backend :: backend where
  "scenario_backend =
     \<lparr>translate_nl_to_shell_command =
        (\<lambda>p. if p = ''list files'' then Inr ''ls -la''
             else if p = ''delete everything'' then Inr ''rm -rf /''
             else Inl ShellWhizTranslationError),
      edit_shell_command =
        (\<lambda>n c t. if t = ''only hidden files'' then Inr ''ls -d .*'' else Inl ShellWhizEditError),
      recognize_dangerous_command =
        (\<lambda>n c. if c = ''rm -rf /'' then Inr (True, ''irreversibly deletes all files'')
               else if c = ''ls -la'' then Inr (False, [])
               else Inl ShellWhizWarningError),
      get_explanation_of_shell_command = (\<lambda>n c. Inr (''Explanation of '' @ c))\<rparr>"

definition unreachable_backend :: backend where
  "unreachable_backend =
     scenario_backend\<lparr>translate_nl_to_shell_command := (\<lambda>p. Inl (OpenAI APIConnectionError))\<rparr>"

definition modelled_backend :: backend where
  "modelled_backend =
     scenario_backend\<lparr>translate_nl_to_shell_command :=
        command_translator (\<lambda>p. if p = ''list files'' then Inr ''ls -la'' else Inr [])\<rparr>"

definition sample_terminal :: terminal where
  "sample_terminal = \<lparr>rich_print = (\<lambda>text. None)\<rparr>"

definition configured :: config_store where
  "configured = \<lparr>shell_whiz_config = None, shell_whiz_update_config = None\<rparr>"

section \<open>Properties\<close>

subsection \<open>The model at work\<close>

text \<open>The observer rejects output that comes in another order.\<close>

lemma observer_rejects:
  "\<not> output_order_ok [Print_explanation e]"
  "\<not> output_order_ok [Print_command c, Ask_action]"
  "\<not> output_order_ok [Print_command c, Call_recognize c (Inr (True, w)), Print_explanation e]"
  "\<not> output_order_ok [Print_command c, Call_recognize c (Inr (False, w)), Print_warning x]"
  "\<not> output_order_ok [Print_command c, Call_recognize c (Inl ShellWhizWarningError), Print_warning x]"
  "\<not> output_order_ok [Print_command c, Call_recognize c (Inr (True, w)), Print_warning (warning_text w), Ask_action]"
  "\<not> output_order_ok [Print_command c, Call_recognize c (Inr (False, w)), Print_explanation e, Print_command c]"
  by (simp_all add: output_order_ok_def verdict_def)

text \<open>
  The first two end-to-end scenarios of section 8 of the specification: a harmless
  command that the user leaves, and a dangerous one that the user runs.
\<close>

lemma scenario_list_files:
  "run sample_constants sample_terminal scenario_backend configured
      \<lparr>sw_command = ''ask'', prompt = [''list'', ''files'']\<rparr> [Exit_choice] =
     ([Shell_whiz_config, Call_translate ''list files'' (Inr ''ls -la''),
       Print_command ''ls -la'', Create_explanation_task ''ls -la'',
       Call_recognize ''ls -la'' (Inr (False, [])),
       Wait_spinner ''Wait, Shell Whiz is thinking... '' ''green'',
       Await_explanation (Inr ''Explanation of ls -la''),
       Print_explanation ''Explanation of ls -la'', Ask_action], Exited 0)"
  by (simp add: run_def main_def run_ai_assistant_def shell_whiz_ask_def iteration_def
      revise_def classify_def warn_def explain_def handle_def strip_def isspace_def
      configured_def scenario_backend_def sample_constants_def)

lemma scenario_delete_everything:
  "run sample_constants sample_terminal scenario_backend configured
      \<lparr>sw_command = ''ask'', prompt = [''delete'', ''everything'']\<rparr> [Run_this_command] =
     ([Shell_whiz_config, Call_translate ''delete everything'' (Inr ''rm -rf /''),
       Print_command ''rm -rf /'', Create_explanation_task ''rm -rf /'',
       Call_recognize ''rm -rf /'' (Inr (True, ''irreversibly deletes all files'')),
       Print_warning '' [bold red]Warning[/]: [bold yellow]irreversibly deletes all files[/]\<newline>'',
       Wait_spinner ''Wait, Shell Whiz is thinking... '' ''green'',
       Await_explanation (Inr ''Explanation of rm -rf /''),
       Print_explanation ''Explanation of rm -rf /'', Ask_action, Subprocess_run ''rm -rf /''],
      Run_returns)"
  by (simp add: run_def main_def run_ai_assistant_def shell_whiz_ask_def iteration_def
      revise_def classify_def warn_def warning_text_def explain_def handle_def strip_def
      isspace_def configured_def scenario_backend_def sample_constants_def
      sample_terminal_def)

text \<open>
  The replay reports an overlap when an awaited call comes between the creation of a
  task and its await, and none when the call in between is not awaited.
\<close>

lemma replay_sees_overlap:
  "requests_overlap [Create_explanation_task c, Call_edit c t r, Await_explanation x]"
  "flights (0, 0) [Create_explanation_task c, Call_edit c t r, Await_explanation x] = [2, 1]"
  "\<not> requests_overlap [Create_explanation_task c, Call_recognize c v, Await_explanation x]"
  by (simp_all add: requests_overlap_def)

text \<open>A terminal that rejects the markup of the warning ends the loop there.\<close>

lemma warning_markup_rejected:
  "loop sample_constants \<lparr>rich_print = (\<lambda>text. Some MarkupError)\<rparr> scenario_backend
      0 True [] ''rm -rf /'' None us =
     ([Print_command ''rm -rf /'', Create_explanation_task ''rm -rf /'',
       Call_recognize ''rm -rf /'' (Inr (True, ''irreversibly deletes all files''))],
      Raises (Raised MarkupError))"
  by (cases us)
     (simp_all add: iteration_def revise_def classify_def warn_def scenario_backend_def)

subsection \<open>Auxiliary facts\<close>





lemma iteration_head:
  "revise b n fr ep c = (ev1, Inr cmd) \<Longrightarrow>
     \<exists>ev. fst (iteration k tm b n fr ep c dc) = ev1 @ Print_command cmd # ev"
  by (auto simp: iteration_def Let_def classify_def warn_def explain_def
      split: sum.splits error.splits option.splits)

lemma loop_head:
  "\<exists>ev. fst (loop k tm b n fr ep c dc us) = fst (iteration k tm b n fr ep c dc) @ ev"
proof (cases us)
  case Nil
  then show ?thesis by (auto simp: split_beta split: sum.splits)
next
  case (Cons u us')
  then show ?thesis by (cases u) (auto simp: split_beta split: sum.splits)
qed

lemma loop_iteration_cong:
  assumes "fst (iteration k tm b n fr ep c dc) = e # fst (iteration k tm b n' fr' ep' c' dc'')"
    and "snd (iteration k tm b n fr ep c dc) = snd (iteration k tm b n' fr' ep' c' dc'')"
    and "n = n'"
  shows "loop k tm b n fr ep c dc us =
     (e # fst (loop k tm b n' fr' ep' c' dc'' us), snd (loop k tm b n' fr' ep' c' dc'' us))"
proof (cases us)
  case Nil
  then show ?thesis using assms
    by (cases "iteration k tm b n fr ep c dc"; cases "iteration k tm b n' fr' ep' c' dc''")
       (auto split: sum.splits)
next
  case (Cons u us')
  then show ?thesis using assms
    by (cases "iteration k tm b n fr ep c dc"; cases "iteration k tm b n' fr' ep' c' dc''"; cases u)
       (auto simp: split_beta split: sum.splits)
qed

lemma iteration_renders:
  "iteration k tm b n fr ep c dc = (ev, Inr (cmd, dc')) \<Longrightarrow> Print_command cmd \<in> set ev"
  by (auto simp: iteration_def Let_def classify_def warn_def explain_def
      split: prod.splits sum.splits error.splits option.splits if_splits)

lemma revise_bound: "snd (revise b n fr ep c) \<noteq> Inl (UnboundLocalError v)"
  by (simp add: revise_def Let_def split: sum.splits error.splits)

lemma classify_bound: "snd (classify b n c dc) \<noteq> Inl (UnboundLocalError v)"
  by (simp add: classify_def Let_def split: sum.splits error.splits prod.splits)

lemma classify_assigns: "snd (classify b n c dc) = Inr (True, dc') \<Longrightarrow> dc' \<noteq> None"
  by (auto simp: classify_def Let_def split: sum.splits error.splits prod.splits)

lemma warn_bound:
  "snd (warn tm False dc) \<noteq> Inl x"
  "snd (warn tm d (Some t)) \<noteq> Inl (UnboundLocalError v)"
  by (simp_all add: warn_def split: option.splits)

lemma explain_bound: "snd (explain k b n c) \<noteq> Inl (UnboundLocalError v)"
  by (simp add: explain_def Let_def split: sum.splits)

lemma iteration_bound: "snd (iteration k tm b n fr ep c dc) \<noteq> Inl (UnboundLocalError v)"
proof (cases "revise b n fr ep c")
  case r: (Pair ev1 r1)
  show ?thesis
  proof (cases r1)
    case (Inl x)
    with r revise_bound [of b n fr ep c v] show ?thesis
      by (simp add: iteration_def)
  next
    case (Inr cmd)
    show ?thesis
    proof (cases "classify b n cmd dc")
      case c: (Pair ev3 r3)
      show ?thesis
      proof (cases r3)
        case (Inl x)
        with r Inr c classify_bound [of b n cmd dc v] show ?thesis
          by (simp add: iteration_def)
      next
        case r3: (Inr y)
        obtain d dc' where y: "y = (d, dc')" by (cases y)
        have w: "snd (warn tm d dc') \<noteq> Inl (UnboundLocalError v)"
        proof (cases d)
          case True
          with c r3 y classify_assigns [of b n cmd dc dc'] obtain t where "dc' = Some t"
            by auto
          then show ?thesis by (simp add: warn_bound)
        next
          case False
          then show ?thesis by (simp add: warn_bound)
        qed
        obtain ev4 r4 where w4: "warn tm d dc' = (ev4, r4)" by (cases "warn tm d dc'")
        with w have r4: "r4 \<noteq> Inl (UnboundLocalError v)" by simp
        obtain ev5 r5 where e5: "explain k b n cmd = (ev5, r5)" by (cases "explain k b n cmd")
        with explain_bound [of k b n cmd v] have "r5 \<noteq> Inl (UnboundLocalError v)" by simp
        with r4 show ?thesis
          by (auto simp: iteration_def r Inr c r3 y w4 e5 split: sum.splits)
      qed
    qed
  qed
qed

lemma loop_never_unbound:
  "snd (loop k tm b n fr ep c dc us) \<noteq> Raises (UnboundLocalError v)"
proof (induction us arbitrary: n fr ep c dc)
  case Nil
  show ?case using iteration_bound [of k tm b n fr ep c dc v]
    by (cases "iteration k tm b n fr ep c dc") (auto split: sum.splits)
next
  case (Cons u us)
  show ?case using iteration_bound [of k tm b n fr ep c dc v]
    by (cases "iteration k tm b n fr ep c dc"; cases u) (auto simp: split_beta Cons.IH split: sum.splits)
qed

lemma ask_never_unbound: "snd (shell_whiz_ask k tm b p us) \<noteq> Raises (UnboundLocalError v)"
  by (simp add: shell_whiz_ask_def Let_def split_beta loop_never_unbound
      split: sum.splits error.splits)

lemma main_never_unbound: "snd (main k tm b cs a us) \<noteq> Raises (UnboundLocalError v)"
  by (simp add: main_def run_ai_assistant_def Let_def split_beta ask_never_unbound
      split: option.splits)

lemma handle_openai:
  "snd (handle k (Raises (Raised (OpenAI e)))) = Exited (OPENAI_ERROR_EXIT_CODE k)"
  by (cases e) (simp_all add: handle_def)

lemma handle_unbound:
  "snd (handle k out) = Uncaught (UnboundLocalError v) \<Longrightarrow> out = Raises (UnboundLocalError v)"
proof (cases out)
  case (Raises x)
  assume h: "snd (handle k out) = Uncaught (UnboundLocalError v)"
  show ?thesis
  proof (cases x)
    case (Raised e)
    show ?thesis
    proof (cases e)
      case (OpenAI oe)
      with h Raises Raised handle_openai [of k oe] show ?thesis by simp
    qed (use h Raises Raised in \<open>simp_all add: handle_def\<close>)
  next
    case (SystemExit c)
    with h Raises show ?thesis by (cases c) (simp_all add: handle_def)
  next
    case (UnboundLocalError w)
    with h Raises show ?thesis by (simp add: handle_def)
  qed
qed (simp_all add: handle_def)

lemma handle_message:
  "\<exists>m. fst (handle k (Raises (Raised (OpenAI e)))) = [Print_error (SW_ERROR k @ m)]
     \<and> length m =
        (case e of APIError \<Rightarrow> 197 | Timeout \<Rightarrow> 77 | APIConnectionError \<Rightarrow> 92
         | InvalidRequestError \<Rightarrow> 94 | AuthenticationError \<Rightarrow> 266 | PermissionError \<Rightarrow> 186
         | RateLimitError \<Rightarrow> 218 | ServiceUnavailableError \<Rightarrow> 207 | OpenAIError \<Rightarrow> 109)"
  by (cases e) (simp_all add: handle_def)

lemma handle_message_inj:
  assumes "fst (handle k (Raises (Raised (OpenAI e')))) = fst (handle k (Raises (Raised (OpenAI e))))"
  shows "e' = e"
proof -
  let ?len = "\<lambda>e. case e of APIError \<Rightarrow> 197 | Timeout \<Rightarrow> 77 | APIConnectionError \<Rightarrow> 92
         | InvalidRequestError \<Rightarrow> 94 | AuthenticationError \<Rightarrow> 266 | PermissionError \<Rightarrow> 186
         | RateLimitError \<Rightarrow> 218 | ServiceUnavailableError \<Rightarrow> 207 | OpenAIError \<Rightarrow> (109::nat)"
  obtain m where m: "fst (handle k (Raises (Raised (OpenAI e)))) = [Print_error (SW_ERROR k @ m)]"
    "length m = ?len e"
    using handle_message [of k e] by blast
  obtain m' where m': "fst (handle k (Raises (Raised (OpenAI e')))) = [Print_error (SW_ERROR k @ m')]"
    "length m' = ?len e'"
    using handle_message [of k e'] by blast
  from assms m(1) m'(1) have "m' = m" by simp
  with m(2) m'(2) have "?len e' = ?len e" by simp
  then show ?thesis by (cases e; cases e') simp_all
qed



lemma flights_append:
  "flights s (xs @ ys) = flights s xs @ flights (foldl sched s xs) ys"
  by (induction xs arbitrary: s) auto

lemma revise_flights:
  "set (flights (0, 0) (fst (revise b n fr ep c))) \<subseteq> {1}"
  "foldl sched (0, 0) (fst (revise b n fr ep c)) = (0, 0)"
  by (auto simp: revise_def Let_def split: sum.splits error.splits)

lemma iteration_flights:
  "set (flights (0, 0) (fst (iteration k tm b n fr ep c dc))) \<subseteq> {1}"
  "case snd (iteration k tm b n fr ep c dc) of Inl _ \<Rightarrow> True
   | Inr _ \<Rightarrow> foldl sched (0, 0) (fst (iteration k tm b n fr ep c dc)) = (0, 0)"
proof -
  obtain ev1 r1 where r: "revise b n fr ep c = (ev1, r1)"
    by (cases "revise b n fr ep c")
  have 1: "set (flights (0, 0) ev1) \<subseteq> {1}" "foldl sched (0, 0) ev1 = (0, 0)"
    using revise_flights [of b n fr ep c] r by simp_all
  show "set (flights (0, 0) (fst (iteration k tm b n fr ep c dc))) \<subseteq> {1}"
    unfolding iteration_def r using 1(1)
    by (auto simp: flights_append 1(2) Let_def classify_def warn_def explain_def
      split: sum.splits error.splits option.splits)
  show "case snd (iteration k tm b n fr ep c dc) of Inl _ \<Rightarrow> True
   | Inr _ \<Rightarrow> foldl sched (0, 0) (fst (iteration k tm b n fr ep c dc)) = (0, 0)"
    unfolding iteration_def r
    by (auto simp: 1(2) Let_def classify_def warn_def explain_def
      split: sum.splits error.splits option.splits)
qed

lemma loop_flights: "set (flights (0, 0) (fst (loop k tm b n fr ep c dc us))) \<subseteq> {1}"
proof (induction us arbitrary: n fr ep c dc)
  case Nil
  show ?case
    using iteration_flights [of k tm b n fr ep c dc]
    by (auto simp: flights_append split_beta split: sum.splits)
next
  case (Cons u us)
  show ?case
    using iteration_flights [of k tm b n fr ep c dc] Cons.IH
    by (cases u) (auto simp: flights_append split_beta split: sum.splits)
qed

text \<open>
  No call of \<open>shell_whiz_ask\<close> has two backend requests outstanding at once.
\<close>

lemma requests_never_overlap: "\<not> requests_overlap (fst (shell_whiz_ask k tm b p us))"
proof -
  have "set (flights (0, 0) (fst (shell_whiz_ask k tm b p us))) \<subseteq> {1}"
    using loop_flights [of k tm b 0 True "[]" _ None us]
    by (auto simp: shell_whiz_ask_def Let_def split_beta split: sum.splits error.splits)
  then show ?thesis
    by (auto simp: requests_overlap_def list_ex_iff)
qed

subsection \<open>The claims\<close>



text \<open>
  C2. When the Command Translator fails with \<open>ShellWhizTranslationError\<close>, the
  invocation ends with the exit code for unrecoverable errors after a message to the
  user, and the interaction loop is never entered: the whole trace of the run is the
  configuration step, the call of the translator and the message, so that nothing is
  rendered, classified or explained and no menu is shown. Under the contract of the
  exit codes, the code differs from the three others.
\<close>

theorem translation_failure_is_fatal:
  assumes "shell_whiz_config cs = None" and "sw_command a = ''ask''"
    and "strip (join '' '' (prompt a)) = p" and "p \<noteq> []"
    and "translate_nl_to_shell_command b p = Inl ShellWhizTranslationError"
  shows "shell_whiz_ask k tm b p us =
           ([Call_translate p (Inl ShellWhizTranslationError),
             Print_error (SW_ERROR k @ '': Shell Whiz doesn't know how to do this.'')],
            Raises (SystemExit (Some (SW_ERROR_EXIT_CODE k))))
       \<and> run k tm b cs a us =
           ([Shell_whiz_config, Call_translate p (Inl ShellWhizTranslationError),
             Print_error (SW_ERROR k @ '': Shell Whiz doesn't know how to do this.'')],
            Exited (SW_ERROR_EXIT_CODE k))
       \<and> (exit_codes_ok k \<longrightarrow>
            SW_ERROR_EXIT_CODE k \<notin> {0, INV_CLI_ARGS_EXIT_CODE k, OPENAI_ERROR_EXIT_CODE k})"
proof -
  have ask: "shell_whiz_ask k tm b p us =
           ([Call_translate p (Inl ShellWhizTranslationError),
             Print_error (SW_ERROR k @ '': Shell Whiz doesn't know how to do this.'')],
            Raises (SystemExit (Some (SW_ERROR_EXIT_CODE k))))"
    using assms(5) by (simp add: shell_whiz_ask_def)
  have "main k tm b cs a us = (Shell_whiz_config # fst (shell_whiz_ask k tm b p us), snd (shell_whiz_ask k tm b p us))"
    using assms(1-4) by (simp add: main_def run_ai_assistant_def split_beta)
  then have "run k tm b cs a us =
           ([Shell_whiz_config, Call_translate p (Inl ShellWhizTranslationError),
             Print_error (SW_ERROR k @ '': Shell Whiz doesn't know how to do this.'')],
            Exited (SW_ERROR_EXIT_CODE k))"
    by (simp add: run_def ask handle_def)
  moreover have "exit_codes_ok k \<longrightarrow>
            SW_ERROR_EXIT_CODE k \<notin> {0, INV_CLI_ARGS_EXIT_CODE k, OPENAI_ERROR_EXIT_CODE k}"
    by (auto simp: exit_codes_ok_def)
  ultimately show ?thesis using ask by blast
qed

theorem translation_failure_is_fatal_witness:
  "run sample_constants sample_terminal scenario_backend configured
      \<lparr>sw_command = ''ask'', prompt = [''make'', ''tea '']\<rparr> [Run_this_command] =
     ([Shell_whiz_config, Call_translate ''make tea'' (Inl ShellWhizTranslationError),
       Print_error ''[bold red]Error[/]: Shell Whiz doesn't know how to do this.''],
      Exited 1)
   \<and> exit_codes_ok sample_constants"
proof -
  let ?a = "\<lparr>sw_command = ''ask'', prompt = [''make'', ''tea '']\<rparr>"
  have 1: "shell_whiz_config configured = None" by (simp add: configured_def)
  have 2: "sw_command ?a = ''ask''" by simp
  have 3: "strip (join '' '' (prompt ?a)) = ''make tea''"
    by (simp add: strip_def isspace_def)
  have 4: "''make tea'' \<noteq> []" by simp
  have 5: "translate_nl_to_shell_command scenario_backend ''make tea'' = Inl ShellWhizTranslationError"
    by (simp add: scenario_backend_def)
  have 6: "exit_codes_ok sample_constants" by (simp add: exit_codes_ok_def sample_constants_def)
  show ?thesis
    using translation_failure_is_fatal [OF 1 2 3 4 5, where k = sample_constants and tm = sample_terminal
        and us = "[Run_this_command]"] 6
    by (simp add: sample_constants_def)
qed

text \<open>
  C3. For every command and every non-empty revision instruction, when the Command
  Editor fails with \<open>ShellWhizEditError\<close> the current command after the failed
  edit is the command before it, and the loop goes on to the next render: apart from
  the recorded call, the loop behaves as if no revision had been asked for, and the
  next thing it does is to print the unchanged command.
\<close>

theorem failed_edit_keeps_command:
  assumes "edit_prompt \<noteq> []"
    and "edit_shell_command b n shell_command edit_prompt = Inl ShellWhizEditError"
  shows "revise b n False edit_prompt shell_command =
           ([Call_edit shell_command edit_prompt (Inl ShellWhizEditError)], Inr shell_command)
       \<and> loop k tm b n False edit_prompt shell_command dc us =
           (Call_edit shell_command edit_prompt (Inl ShellWhizEditError)
              # fst (loop k tm b n False [] shell_command dc us),
            snd (loop k tm b n False [] shell_command dc us))
       \<and> (\<exists>ev. fst (loop k tm b n False edit_prompt shell_command dc us) =
             Call_edit shell_command edit_prompt (Inl ShellWhizEditError)
               # Print_command shell_command # ev)"
proof -
  let ?e = "Call_edit shell_command edit_prompt (Inl ShellWhizEditError)"
  have r: "revise b n False edit_prompt shell_command = ([?e], Inr shell_command)"
    using assms by (simp add: revise_def)
  have r0: "revise b n False [] shell_command = ([], Inr shell_command)"
    by (simp add: revise_def)
  have i1: "fst (iteration k tm b n False edit_prompt shell_command dc) =
       ?e # fst (iteration k tm b n False [] shell_command dc)"
    by (simp add: iteration_def r r0 Let_def split_beta split: sum.splits)
  have i2: "snd (iteration k tm b n False edit_prompt shell_command dc) =
       snd (iteration k tm b n False [] shell_command dc)"
    by (simp add: iteration_def r r0 Let_def split_beta split: sum.splits)
  have l: "loop k tm b n False edit_prompt shell_command dc us =
      (?e # fst (loop k tm b n False [] shell_command dc us),
       snd (loop k tm b n False [] shell_command dc us))"
    by (rule loop_iteration_cong [OF i1 i2 refl])
  obtain ev where "fst (iteration k tm b n False [] shell_command dc) = Print_command shell_command # ev"
    using iteration_head [OF r0, where k = k and tm = tm and dc = dc] by auto
  moreover obtain ev' where "fst (loop k tm b n False [] shell_command dc us) =
      fst (iteration k tm b n False [] shell_command dc) @ ev'"
    using loop_head by blast
  ultimately have "fst (loop k tm b n False edit_prompt shell_command dc us) =
      ?e # Print_command shell_command # (ev @ ev')"
    using l by simp
  with r l show ?thesis by blast
qed

theorem failed_edit_keeps_command_witness:
  "revise scenario_backend 1 False ''also hidden'' ''ls -la'' =
     ([Call_edit ''ls -la'' ''also hidden'' (Inl ShellWhizEditError)], Inr ''ls -la'')
   \<and> (\<exists>ev. fst (loop sample_constants sample_terminal scenario_backend 1 False ''also hidden'' ''ls -la'' None
                   [Exit_choice]) =
         Call_edit ''ls -la'' ''also hidden'' (Inl ShellWhizEditError)
           # Print_command ''ls -la'' # ev)"
proof -
  have 1: "''also hidden'' \<noteq> []" by simp
  have 2: "edit_shell_command scenario_backend 1 ''ls -la'' ''also hidden'' = Inl ShellWhizEditError"
    by (simp add: scenario_backend_def)
  show ?thesis
    using failed_edit_keeps_command [OF 1 2, where k = sample_constants and tm = sample_terminal and dc = None
        and us = "[Exit_choice]"]
    by blast
qed

text \<open>
  C4. When the Safety Classifier fails with \<open>ShellWhizWarningError\<close>, the
  iteration shows no warning, the danger flag is false, and the iteration goes on to
  await and display the explanation: how it ends is decided by the explanation step
  alone, and when the explainer answers, the loop reaches the menu.
\<close>

theorem classifier_failure_is_not_dangerous:
  assumes "revise b n first_run edit_prompt c = (ev1, Inr cmd)"
    and "recognize_dangerous_command b n cmd = Inl ShellWhizWarningError"
  shows "classify b n cmd dc = ([Call_recognize cmd (Inl ShellWhizWarningError)], Inr (False, dc))
       \<and> iteration k tm b n first_run edit_prompt c dc =
           (ev1 @ [Print_command cmd, Create_explanation_task cmd,
                   Call_recognize cmd (Inl ShellWhizWarningError)] @ fst (explain k b n cmd),
            case snd (explain k b n cmd) of Inl x \<Rightarrow> Inl x | Inr _ \<Rightarrow> Inr (cmd, dc))
       \<and> (\<forall>ex. get_explanation_of_shell_command b n cmd = Inr ex \<longrightarrow>
            (\<exists>ev. fst (loop k tm b n first_run edit_prompt c dc us) =
               ev1 @ [Print_command cmd, Create_explanation_task cmd,
                      Call_recognize cmd (Inl ShellWhizWarningError),
                      Wait_spinner (SW_WAIT_MSG k) (SW_WAIT_MSG_COLOR k),
                      Await_explanation (Inr ex), Print_explanation ex, Ask_action] @ ev))"
proof -
  have c: "classify b n cmd dc = ([Call_recognize cmd (Inl ShellWhizWarningError)], Inr (False, dc))"
    using assms(2) by (simp add: classify_def)
  have i: "iteration k tm b n first_run edit_prompt c dc =
           (ev1 @ [Print_command cmd, Create_explanation_task cmd,
                   Call_recognize cmd (Inl ShellWhizWarningError)] @ fst (explain k b n cmd),
            case snd (explain k b n cmd) of Inl x \<Rightarrow> Inl x | Inr _ \<Rightarrow> Inr (cmd, dc))"
    by (simp add: iteration_def assms(1) c warn_def Let_def split_beta split: sum.splits)
  have "\<exists>ev. fst (loop k tm b n first_run edit_prompt c dc us) =
               ev1 @ [Print_command cmd, Create_explanation_task cmd,
                      Call_recognize cmd (Inl ShellWhizWarningError),
                      Wait_spinner (SW_WAIT_MSG k) (SW_WAIT_MSG_COLOR k),
                      Await_explanation (Inr ex), Print_explanation ex, Ask_action] @ ev"
    if ex: "get_explanation_of_shell_command b n cmd = Inr ex" for ex
  proof -
    have e: "explain k b n cmd =
        ([Wait_spinner (SW_WAIT_MSG k) (SW_WAIT_MSG_COLOR k), Await_explanation (Inr ex),
          Print_explanation ex], Inr ())"
      using ex by (simp add: explain_def)
    show ?thesis
    proof (cases us)
      case Nil
      then show ?thesis by (simp add: i e)
    next
      case (Cons u us')
      then show ?thesis by (cases u) (simp_all add: i e split_beta)
    qed
  qed
  with c i show ?thesis by blast
qed

theorem classifier_failure_is_not_dangerous_witness:
  "loop sample_constants sample_terminal scenario_backend 0 True [] ''pwd'' None [Run_this_command] =
     ([Print_command ''pwd'', Create_explanation_task ''pwd'',
       Call_recognize ''pwd'' (Inl ShellWhizWarningError),
       Wait_spinner ''Wait, Shell Whiz is thinking... '' ''green'',
       Await_explanation (Inr ''Explanation of pwd''), Print_explanation ''Explanation of pwd'',
       Ask_action, Subprocess_run ''pwd''], Returns)"
proof -
  have 1: "revise scenario_backend 0 True [] ''pwd'' = ([], Inr ''pwd'')"
    by (simp add: revise_def)
  have 2: "recognize_dangerous_command scenario_backend 0 ''pwd'' = Inl ShellWhizWarningError"
    by (simp add: scenario_backend_def)
  have 3: "get_explanation_of_shell_command scenario_backend 0 ''pwd'' = Inr ''Explanation of pwd''"
    by (simp add: scenario_backend_def)
  have 4: "explain sample_constants scenario_backend 0 ''pwd'' =
     ([Wait_spinner ''Wait, Shell Whiz is thinking... '' ''green'',
       Await_explanation (Inr ''Explanation of pwd''), Print_explanation ''Explanation of pwd''],
      Inr ())"
    by (simp add: explain_def 3 sample_constants_def)
  show ?thesis
    using classifier_failure_is_not_dangerous [OF 1 2, where k = sample_constants and tm = sample_terminal
        and dc = None and us = "[Run_this_command]"] 3
    by (simp add: 4)
qed

text \<open>
  C5. Choosing "Revise query" and submitting an empty revision instruction leaves
  the current command unchanged in the next iteration, which prints the same command
  text again, and the editor is not called: the revision step of the next iteration
  records no event, and the print of the command follows the revision prompt at
  once.
\<close>

theorem empty_revision_is_no_op:
  assumes "iteration k tm b n first_run edit_prompt shell_command dc = (ev, Inr (cmd, dc'))"
  shows "Print_command cmd \<in> set ev
       \<and> revise b (Suc n) False [] cmd = ([], Inr cmd)
       \<and> fst (loop k tm b n first_run edit_prompt shell_command dc (Revise_query [] # us)) =
           ev @ [Ask_action, Ask_revise] @ fst (loop k tm b (Suc n) False [] cmd dc' us)
       \<and> (\<exists>ev'. fst (loop k tm b (Suc n) False [] cmd dc' us) = Print_command cmd # ev')"
proof -
  have r: "revise b (Suc n) False [] cmd = ([], Inr cmd)"
    by (simp add: revise_def)
  have l: "fst (loop k tm b n first_run edit_prompt shell_command dc (Revise_query [] # us)) =
           ev @ [Ask_action, Ask_revise] @ fst (loop k tm b (Suc n) False [] cmd dc' us)"
    by (simp add: assms split_beta)
  obtain ev1 where "fst (iteration k tm b (Suc n) False [] cmd dc') = Print_command cmd # ev1"
    using iteration_head [OF r, where k = k and tm = tm and dc = dc'] by auto
  moreover obtain ev2 where "fst (loop k tm b (Suc n) False [] cmd dc' us) =
      fst (iteration k tm b (Suc n) False [] cmd dc') @ ev2"
    using loop_head by blast
  ultimately have "fst (loop k tm b (Suc n) False [] cmd dc' us) = Print_command cmd # (ev1 @ ev2)"
    by simp
  with r l iteration_renders [OF assms] show ?thesis by blast
qed

theorem empty_revision_is_no_op_witness:
  "fst (loop sample_constants sample_terminal scenario_backend 0 True [] ''ls -la'' None
          [Revise_query [], Exit_choice]) =
     [Print_command ''ls -la'', Create_explanation_task ''ls -la'',
      Call_recognize ''ls -la'' (Inr (False, [])),
      Wait_spinner ''Wait, Shell Whiz is thinking... '' ''green'',
      Await_explanation (Inr ''Explanation of ls -la''),
      Print_explanation ''Explanation of ls -la'', Ask_action, Ask_revise]
     @ fst (loop sample_constants sample_terminal scenario_backend 1 False [] ''ls -la'' (Some []) [Exit_choice])"
proof -
  have 1: "iteration sample_constants sample_terminal scenario_backend 0 True [] ''ls -la'' None =
     ([Print_command ''ls -la'', Create_explanation_task ''ls -la'',
       Call_recognize ''ls -la'' (Inr (False, [])),
       Wait_spinner ''Wait, Shell Whiz is thinking... '' ''green'',
       Await_explanation (Inr ''Explanation of ls -la''),
       Print_explanation ''Explanation of ls -la''], Inr (''ls -la'', Some []))"
    by (simp add: iteration_def revise_def classify_def warn_def explain_def
        scenario_backend_def sample_constants_def)
  show ?thesis
    using empty_revision_is_no_op [OF 1, where us = "[Exit_choice]"] by simp
qed

text \<open>
  C6. For every non-empty prompt, when the translation succeeds the command is
  non-empty before the loop renders anything: the first thing printed is that
  command. The translator is the one modelled from the specification.
\<close>

theorem translated_command_not_empty:
  assumes "p \<noteq> []"
    and "translate_nl_to_shell_command b = command_translator model"
    and "translate_nl_to_shell_command b p = Inr c"
  shows "c \<noteq> []
       \<and> (\<exists>ev. fst (shell_whiz_ask k tm b p us) = Call_translate p (Inr c) # Print_command c # ev)"
proof -
  have ne: "c \<noteq> []"
    using assms(2,3) by (auto simp: command_translator_def split: sum.splits if_splits)
  have r: "revise b 0 True [] c = ([], Inr c)"
    by (simp add: revise_def)
  obtain ev1 where "fst (iteration k tm b 0 True [] c None) = Print_command c # ev1"
    using iteration_head [OF r, where k = k and tm = tm and dc = None] by auto
  moreover obtain ev2 where "fst (loop k tm b 0 True [] c None us) =
      fst (iteration k tm b 0 True [] c None) @ ev2"
    using loop_head by blast
  ultimately have "fst (shell_whiz_ask k tm b p us) =
      Call_translate p (Inr c) # Print_command c # (ev1 @ ev2)"
    using assms(3) by (simp add: shell_whiz_ask_def split_beta)
  with ne show ?thesis by blast
qed

theorem translated_command_not_empty_witness:
  "''list files'' \<noteq> [] \<and> ''ls -la'' \<noteq> []
   \<and> (\<exists>ev. fst (shell_whiz_ask sample_constants sample_terminal modelled_backend ''list files'' [Exit_choice]) =
         Call_translate ''list files'' (Inr ''ls -la'') # Print_command ''ls -la'' # ev)"
proof -
  have 1: "''list files'' \<noteq> []" by simp
  have 2: "translate_nl_to_shell_command modelled_backend =
      command_translator (\<lambda>p. if p = ''list files'' then Inr ''ls -la'' else Inr [])"
    by (simp add: modelled_backend_def)
  have 3: "translate_nl_to_shell_command modelled_backend ''list files'' = Inr ''ls -la''"
    by (simp add: modelled_backend_def command_translator_def)
  show ?thesis
    using translated_command_not_empty [OF 1 2 3, where k = sample_constants and tm = sample_terminal
        and us = "[Exit_choice]"]
    by simp
qed

text \<open>
  C7. For the \<open>ask\<close> subcommand the positional words are joined into one prompt
  string; when that string is empty after trimming, the process reports a usage
  error and exits with the exit code for invalid arguments, and no backend operation
  is called: the trace is the configuration step and the message. Under the contract
  of the exit codes, the code differs from the code for general errors (and from the
  two others). The configuration step, which comes first, is assumed to return.
\<close>

theorem empty_prompt_is_usage_error:
  assumes "shell_whiz_config cs = None" and "sw_command a = ''ask''"
    and "strip (join '' '' (prompt a)) = []"
  shows "run k tm b cs a us =
           ([Shell_whiz_config, Print_error (SW_ERROR k @ '': Please provide a valid prompt.'')],
            Exited (INV_CLI_ARGS_EXIT_CODE k))
       \<and> (exit_codes_ok k \<longrightarrow>
            INV_CLI_ARGS_EXIT_CODE k \<notin> {0, SW_ERROR_EXIT_CODE k, OPENAI_ERROR_EXIT_CODE k})"
proof -
  have "main k tm b cs a us =
      ([Shell_whiz_config, Print_error (SW_ERROR k @ '': Please provide a valid prompt.'')],
       Raises (SystemExit (Some (INV_CLI_ARGS_EXIT_CODE k))))"
    using assms by (simp add: main_def run_ai_assistant_def)
  then have "run k tm b cs a us =
           ([Shell_whiz_config, Print_error (SW_ERROR k @ '': Please provide a valid prompt.'')],
            Exited (INV_CLI_ARGS_EXIT_CODE k))"
    by (simp add: run_def handle_def)
  moreover have "exit_codes_ok k \<longrightarrow>
            INV_CLI_ARGS_EXIT_CODE k \<notin> {0, SW_ERROR_EXIT_CODE k, OPENAI_ERROR_EXIT_CODE k}"
    by (auto simp: exit_codes_ok_def)
  ultimately show ?thesis by blast
qed

theorem empty_prompt_is_usage_error_witness:
  "run sample_constants sample_terminal scenario_backend configured
      \<lparr>sw_command = ''ask'', prompt = [''  '', ''\<newline>'']\<rparr> [Run_this_command] =
     ([Shell_whiz_config, Print_error ''[bold red]Error[/]: Please provide a valid prompt.''],
      Exited 2)
   \<and> exit_codes_ok sample_constants"
proof -
  let ?a = "\<lparr>sw_command = ''ask'', prompt = [''  '', ''\<newline>'']\<rparr>"
  have 1: "shell_whiz_config configured = None" by (simp add: configured_def)
  have 2: "sw_command ?a = ''ask''" by simp
  have 3: "strip (join '' '' (prompt ?a)) = []"
    by (simp add: strip_def isspace_def)
  have 4: "exit_codes_ok sample_constants" by (simp add: exit_codes_ok_def sample_constants_def)
  show ?thesis
    using empty_prompt_is_usage_error [OF 1 2 3, where k = sample_constants and tm = sample_terminal
        and b = scenario_backend and us = "[Run_this_command]"] 4
    by (simp add: sample_constants_def)
qed

text \<open>
  C8. Every kind of backend error that reaches the top level ends the process with
  the one exit code for backend errors, non-zero under the contract of the exit
  codes, after one message that starts with the error prefix, and no two kinds have
  the same message.
\<close>

theorem backend_errors_share_exit_code:
  assumes "main k tm b cs a us = (ev, Raises (Raised (OpenAI e)))"
  shows "run k tm b cs a us =
           (ev @ fst (handle k (Raises (Raised (OpenAI e)))), Exited (OPENAI_ERROR_EXIT_CODE k))
       \<and> (\<exists>m. fst (handle k (Raises (Raised (OpenAI e)))) = [Print_error (SW_ERROR k @ m)])
       \<and> (\<forall>e'. fst (handle k (Raises (Raised (OpenAI e')))) =
                  fst (handle k (Raises (Raised (OpenAI e)))) \<longrightarrow> e' = e)
       \<and> (exit_codes_ok k \<longrightarrow> OPENAI_ERROR_EXIT_CODE k \<noteq> 0)"
proof -
  have "run k tm b cs a us =
      (ev @ fst (handle k (Raises (Raised (OpenAI e)))), Exited (OPENAI_ERROR_EXIT_CODE k))"
    using handle_openai [of k e] by (simp add: run_def assms split_beta)
  moreover have "\<exists>m. fst (handle k (Raises (Raised (OpenAI e)))) = [Print_error (SW_ERROR k @ m)]"
    using handle_message [of k e] by blast
  moreover have "exit_codes_ok k \<longrightarrow> OPENAI_ERROR_EXIT_CODE k \<noteq> 0"
    by (auto simp: exit_codes_ok_def)
  ultimately show ?thesis using handle_message_inj by blast
qed

theorem backend_errors_share_exit_code_witness:
  "run sample_constants sample_terminal unreachable_backend configured
      \<lparr>sw_command = ''ask'', prompt = [''list'', ''files'']\<rparr> [Run_this_command] =
     ([Shell_whiz_config, Call_translate ''list files'' (Inl (OpenAI APIConnectionError)),
       Print_error ''[bold red]Error[/]: OpenAI API request failed to connect. Please check your internet connection and try again.''],
      Exited 3)
   \<and> exit_codes_ok sample_constants"
proof -
  have 1: "main sample_constants sample_terminal unreachable_backend configured
      \<lparr>sw_command = ''ask'', prompt = [''list'', ''files'']\<rparr> [Run_this_command] =
     ([Shell_whiz_config, Call_translate ''list files'' (Inl (OpenAI APIConnectionError))],
      Raises (Raised (OpenAI APIConnectionError)))"
    by (simp add: main_def run_ai_assistant_def configured_def strip_def isspace_def
        shell_whiz_ask_def unreachable_backend_def scenario_backend_def)
  have 2: "exit_codes_ok sample_constants" by (simp add: exit_codes_ok_def sample_constants_def)
  have 3: "fst (handle sample_constants (Raises (Raised (OpenAI APIConnectionError)))) =
     [Print_error ''[bold red]Error[/]: OpenAI API request failed to connect. Please check your internet connection and try again.'']"
    by (simp add: handle_def sample_constants_def)
  have 4: "OPENAI_ERROR_EXIT_CODE sample_constants = 3" by (simp add: sample_constants_def)
  show ?thesis
    using backend_errors_share_exit_code [OF 1] 2 by (simp add: 3 4)
qed

text \<open>
  C9. The claim: in every iteration the explanation fetch is initiated before the
  danger check completes, so that the explanation request and the danger-check
  request overlap in flight. The task is created before the danger check is called
  (line 77 before line 82), but the danger check is called without \<open>await\<close> and the
  first \<open>await\<close> after the creation of the task is the one of line 94: the request
  of the explanation is sent after the danger check has returned. For the request
  to list files, answered as in the first scenario of the specification, one request
  is outstanding at each of the three backend calls, and never two.
\<close>

theorem explanation_request_waits:
  "fst (shell_whiz_ask sample_constants sample_terminal scenario_backend ''list files'' [Exit_choice]) =
     [Call_translate ''list files'' (Inr ''ls -la''),
      Print_command ''ls -la'', Create_explanation_task ''ls -la'',
      Call_recognize ''ls -la'' (Inr (False, [])),
      Wait_spinner ''Wait, Shell Whiz is thinking... '' ''green'',
      Await_explanation (Inr ''Explanation of ls -la''),
      Print_explanation ''Explanation of ls -la'', Ask_action]
   \<and> flights (0, 0) (fst (shell_whiz_ask sample_constants sample_terminal scenario_backend
         ''list files'' [Exit_choice])) = [1, 1, 1]
   \<and> \<not> requests_overlap (fst (shell_whiz_ask sample_constants sample_terminal scenario_backend
         ''list files'' [Exit_choice]))"
  by (simp add: requests_overlap_def shell_whiz_ask_def iteration_def
      revise_def classify_def warn_def explain_def scenario_backend_def sample_constants_def)

text \<open>
  C10. The consequences text is read only after a successful danger check with a
  dangerous verdict, so the variable is never read before it is assigned: no call of
  \<open>shell_whiz_ask\<close> raises \<open>UnboundLocalError\<close>, and no run ends with it
  uncaught, whatever the backend does, also when the classifier fails in the first
  iteration.
\<close>

theorem consequences_never_read_unassigned:
  "snd (shell_whiz_ask k tm b p us) \<noteq> Raises (UnboundLocalError v)
   \<and> snd (run k tm b cs a us) \<noteq> Uncaught (UnboundLocalError v)"
proof -
  have "snd (run k tm b cs a us) = snd (handle k (snd (main k tm b cs a us)))"
    by (simp add: run_def split_beta)
  with handle_unbound [of k "snd (main k tm b cs a us)" v] main_never_unbound [of k tm b cs a us v]
  have "snd (run k tm b cs a us) \<noteq> Uncaught (UnboundLocalError v)" by auto
  with ask_never_unbound show ?thesis by blast
qed

end
